theory Spec2Isabelle
  imports Main "HOL-Library.Word"
begin

section \<open>Exceptions raised by the library\<close>

text \<open>
  Modelled from the spec: the enumeration \<open>InputExceptionErrors\<close>, which is declared
  in \<open>utilities/include/Exception.h\<close>. The sources raise
  \<open>utilities::InputException\<close> with one of its error codes; the enumerators below
  are the ones the sources name (invalid argument, out of range, size mismatch and type
  mismatch). The message string of an exception is not modelled.
\<close>

datatype InputExceptionErrors = invalidArgument | indexOutOfRange | sizeMismatch | typeMismatch

text \<open>
  The ways a call can end other than by returning: an \<open>InputException\<close>, the
  \<open>std::bad_optional_access\<close> of reading an empty \<open>std::optional\<close>, a failed
  \<open>assert\<close>, and behaviour the language leaves undefined (an access outside an
  array or buffer).
\<close>

datatype failure =
    InputException InputExceptionErrors
  | bad_optional_access
  | assertion_failure
  | undefined_behaviour

section \<open>StlContainerIterator.h: StlContainerIteratorBase\<close>

text \<open>
  The adapter stores a pair of STL iterators \<open>_current\<close> and \<open>_end\<close>. The operations
  used on them are \<open>!=\<close>, \<open>++\<close> and \<open>-\<close>, with the difference converted to
  \<open>size_t\<close>. A position is modelled as a machine word (the index of the element the
  iterator points to), so \<open>++\<close> and \<open>-\<close> wrap as the unsigned conversion does.
\<close>

record (overloaded) 'w StlContainerIteratorBase =
  it_current :: "'w word"
  it_end :: "'w word"

definition StlContainerIteratorBase_ctor ::
  "'w::len word \<Rightarrow> 'w word \<Rightarrow> 'w StlContainerIteratorBase" where
  "StlContainerIteratorBase_ctor b e = \<lparr>it_current = b, it_end = e\<rparr>"

definition IsValid :: "'w::len StlContainerIteratorBase \<Rightarrow> bool" where
  "IsValid it = (it_current it \<noteq> it_end it)"

definition HasSize :: "'w::len StlContainerIteratorBase \<Rightarrow> bool" where
  "HasSize it = True"

definition NumItemsLeft :: "'w::len StlContainerIteratorBase \<Rightarrow> 'w word" where
  "NumItemsLeft it = it_end it - it_current it"

definition Next :: "'w::len StlContainerIteratorBase \<Rightarrow> 'w StlContainerIteratorBase" where
  "Next it = (if IsValid it then it\<lparr>it_current := it_current it + 1\<rparr> else it)"

section \<open>NeuralLayersInterface.h: Layer::As and Layer::Is\<close>

text \<open>
  The classes of the layer hierarchy declared in the header. \<open>Layer\<close> is the abstract
  root; \<open>PReLUActivationLayer\<close> and \<open>LeakyReLUActivationLayer\<close> derive from
  \<open>ActivationLayer\<close>, every other class derives from \<open>Layer\<close> directly.
\<close>

datatype LayerClass =
    Layer
  | ActivationLayer
  | PReLUActivationLayer
  | LeakyReLUActivationLayer
  | BatchNormalizationLayer
  | BiasLayer
  | BinaryConvolutionalLayer
  | ConvolutionalLayer
  | FullyConnectedLayer
  | PoolingLayer
  | RegionDetectionLayer
  | SoftmaxLayer
  | ScalingLayer

text \<open>The direct public base class of each class, as written in the class heads.\<close>

fun baseClass :: "LayerClass \<Rightarrow> LayerClass option" where
  "baseClass Layer = None"
| "baseClass PReLUActivationLayer = Some ActivationLayer"
| "baseClass LeakyReLUActivationLayer = Some ActivationLayer"
| "baseClass c = Some Layer"

text \<open>
  The class itself followed by its chain of base classes. The hierarchy of the header
  has depth two, so two steps of \<open>baseClass\<close> reach the root.
\<close>

definition classChain :: "LayerClass \<Rightarrow> LayerClass list" where
  "classChain c =
     c # (case baseClass c of
            None \<Rightarrow> []
          | Some b \<Rightarrow> b # (case baseClass b of None \<Rightarrow> [] | Some bb \<Rightarrow> [bb]))"

text \<open>
  A layer object: its dynamic class and the \<open>parameters\<close> member of the base class.
  The members added by the derived classes play no role in the casts.
\<close>

record 'p LayerObject =
  dynamicClass :: LayerClass
  parameters :: 'p

text \<open>
  \<open>dynamic_cast<LayerType*>(this)\<close>: the object itself when its dynamic class is the
  target or derives from it, the null pointer otherwise.
\<close>

definition dynamic_cast :: "LayerClass \<Rightarrow> 'p LayerObject \<Rightarrow> 'p LayerObject option" where
  "dynamic_cast target this =
     (if target \<in> set (classChain (dynamicClass this)) then Some this else None)"

definition Layer_As :: "'p LayerObject \<Rightarrow> LayerClass \<Rightarrow> failure + 'p LayerObject" where
  "Layer_As this target =
     (case dynamic_cast target this of
        None \<Rightarrow> Inl (InputException typeMismatch)
      | Some ptr \<Rightarrow> Inr ptr)"

definition Layer_Is :: "'p LayerObject \<Rightarrow> LayerClass \<Rightarrow> bool" where
  "Layer_Is this target = (dynamic_cast target this \<noteq> None)"

section \<open>The value library: element types, memory layouts, values\<close>

text \<open>
  \<open>Matrix.cpp\<close> is written against \<open>Value\<close>, \<open>MemoryLayout\<close>, \<open>Scalar\<close>,
  \<open>Vector\<close> and the \<open>EmitterContext\<close>, whose sources are not available here.
  They are modelled here as far as \<open>Matrix.cpp\<close> uses them. The model is the one of
  the immediate (computing) context: a \<open>Scalar\<close> used as an index is its integer
  value, and data lives in a store of buffers.
\<close>

text \<open>
  Modelled from the spec: the enumeration \<open>ValueType\<close> (a small fixed set of scalar
  element types, with a tag for a value that has no type yet).
\<close>

datatype ValueType =
  Undefined | Void | Boolean | Char8 | Byte | Int16 | Int32 | Int64 | Float | Double

text \<open>
  Modelled from the spec: class \<open>MemoryLayout\<close>, which describes the
  logical-to-physical dimension ordering, the extents, the active sizes and the offsets
  of a region. Sizes, extents, offsets and increments are listed in physical order;
  \<open>layout_dimensionOrder\<close> gives, for each physical dimension, the logical dimension
  stored there.
\<close>

record MemoryLayout =
  layout_size :: "int list"
  layout_extent :: "int list"
  layout_offset :: "int list"
  layout_increment :: "int list"
  layout_dimensionOrder :: "nat list"

fun ComputeCumulativeIncrement :: "int list \<Rightarrow> int list" where
  "ComputeCumulativeIncrement [] = []"
| "ComputeCumulativeIncrement (e # es) = prod_list es # ComputeCumulativeIncrement es"

definition IsPermutation :: "nat list \<Rightarrow> nat \<Rightarrow> bool" where
  "IsPermutation order n = (length order = n \<and> distinct order \<and> list_all (\<lambda>d. d < n) order)"

text \<open>
  Modelled from the spec: the constructor of \<open>MemoryLayout\<close> from active sizes,
  extents, offsets and a dimension order. It accepts only arguments that describe a
  region lying inside the extents.
\<close>

definition MemoryLayout_ctor ::
  "int list \<Rightarrow> int list \<Rightarrow> int list \<Rightarrow> nat list \<Rightarrow> failure + MemoryLayout" where
  "MemoryLayout_ctor physicalSize physicalExtent physicalOffset order =
     (if length physicalExtent \<noteq> length physicalSize
         \<or> length physicalOffset \<noteq> length physicalSize
         \<or> \<not> IsPermutation order (length physicalSize)
      then Inl (InputException invalidArgument)
      else if list_ex (\<lambda>(sz, off, ext). sz + off > ext)
                (zip physicalSize (zip physicalOffset physicalExtent))
      then Inl (InputException invalidArgument)
      else Inr \<lparr>layout_size = physicalSize, layout_extent = physicalExtent,
                layout_offset = physicalOffset,
                layout_increment = ComputeCumulativeIncrement physicalExtent,
                layout_dimensionOrder = order\<rparr>)"

text \<open>The class invariant the constructor establishes, with offsets that are not negative.\<close>

definition MemoryLayout_invariant :: "MemoryLayout \<Rightarrow> bool" where
  "MemoryLayout_invariant l =
     (length (layout_extent l) = length (layout_size l)
      \<and> length (layout_offset l) = length (layout_size l)
      \<and> IsPermutation (layout_dimensionOrder l) (length (layout_size l))
      \<and> layout_increment l = ComputeCumulativeIncrement (layout_extent l)
      \<and> list_all (\<lambda>off. 0 \<le> off) (layout_offset l)
      \<and> list_all (\<lambda>(sz, off, ext). sz + off \<le> ext)
           (zip (layout_size l) (zip (layout_offset l) (layout_extent l))))"

text \<open>
  Modelled from the spec: the layout of a scalar, which has no dimensions, and the
  accessors of \<open>MemoryLayout\<close> that \<open>Matrix.cpp\<close> calls.
\<close>

definition ScalarLayout :: MemoryLayout where
  "ScalarLayout = \<lparr>layout_size = [], layout_extent = [], layout_offset = [],
                    layout_increment = [], layout_dimensionOrder = []\<rparr>"

definition NumDimensions :: "MemoryLayout \<Rightarrow> nat" where
  "NumDimensions l = length (layout_size l)"

definition GetExtent :: "MemoryLayout \<Rightarrow> int list" where
  "GetExtent l = layout_extent l"

definition GetLogicalDimensionOrder :: "MemoryLayout \<Rightarrow> nat list" where
  "GetLogicalDimensionOrder l = layout_dimensionOrder l"

text \<open>
  Modelled from the spec: the physical dimension that stores a logical dimension. The
  dimension order of a layout that satisfies the invariant is a permutation, so the
  lookup finds it; \<open>None\<close> stands for a logical dimension the layout does not have.
\<close>

fun positionOf :: "nat \<Rightarrow> nat list \<Rightarrow> nat option" where
  "positionOf d [] = None"
| "positionOf d (x # xs) =
     (if x = d then Some 0 else map_option Suc (positionOf d xs))"


text \<open>
  Modelled from the spec: the active size of a logical dimension, which is the active
  size of the physical dimension that stores it (0 for a dimension the layout does not
  have, which cannot occur under the invariant).
\<close>

definition GetLogicalDimensionActiveSize :: "MemoryLayout \<Rightarrow> nat \<Rightarrow> int" where
  "GetLogicalDimensionActiveSize l logicalDimension =
     (case positionOf logicalDimension (layout_dimensionOrder l) of
        None \<Rightarrow> 0
      | Some k \<Rightarrow> if k < length (layout_size l) then layout_size l ! k else 0)"

text \<open>
  Modelled from the spec: the distance, in elements, from the start of the region to the
  entry with the given logical coordinates: the coordinates are brought into physical
  order and each is shifted by the offset and weighted by the increment of its
  dimension.
\<close>

definition GetLogicalEntryOffset :: "MemoryLayout \<Rightarrow> int list \<Rightarrow> int" where
  "GetLogicalEntryOffset l logicalCoordinates =
     sum_list (map (\<lambda>(inc, d, off). inc * (logicalCoordinates ! d + off))
       (zip (layout_increment l) (zip (layout_dimensionOrder l) (layout_offset l))))"



text \<open>
  The store: a list of buffers, a buffer being the list of its elements. The address of
  a buffer is its index in the store. Element values are integers.
\<close>

type_synonym store = "int list list"

text \<open>
  Modelled from the spec: class \<open>Value\<close>. A value has an element type
  (\<open>Undefined\<close> for a value not yet defined), optionally a pointer to data (the address
  of a buffer and a position in it) and optionally a layout (the value is
  layout-constrained when it has one).
\<close>

record Value =
  value_type :: ValueType
  value_data :: "(nat \<times> int) option"
  value_layout :: "MemoryLayout option"

text \<open>
  Modelled from the spec: the default constructor of \<open>Value\<close>, which gives a value
  that is not defined, and the member functions of \<open>Value\<close> that \<open>Matrix.cpp\<close>
  calls. Reading the layout of a value that has none raises
  \<open>std::bad_optional_access\<close>.
\<close>

definition Value_default :: Value where
  "Value_default = \<lparr>value_type = Undefined, value_data = None, value_layout = None\<rparr>"

definition IsDefined :: "Value \<Rightarrow> bool" where
  "IsDefined v = (value_type v \<noteq> Undefined)"

definition IsConstrained :: "Value \<Rightarrow> bool" where
  "IsConstrained v = (value_layout v \<noteq> None)"

definition GetBaseType :: "Value \<Rightarrow> ValueType" where
  "GetBaseType v = value_type v"

definition GetLayout :: "Value \<Rightarrow> failure + MemoryLayout" where
  "GetLayout v = (case value_layout v of None \<Rightarrow> Inl bad_optional_access | Some l \<Rightarrow> Inr l)"

definition SetLayout :: "Value \<Rightarrow> MemoryLayout \<Rightarrow> Value" where
  "SetLayout v l = v\<lparr>value_layout := Some l\<rparr>"

text \<open>
  Modelled from the spec: \<open>EmitterContext::Offset\<close>. The result points into the same
  storage as \<open>begin\<close>, moved forward by the entry offset of the coordinates; nothing is
  allocated or copied. The layout of the result is the one of \<open>begin\<close> until the
  caller sets another.
\<close>

definition Offset :: "Value \<Rightarrow> int list \<Rightarrow> failure + Value" where
  "Offset begin index =
     (case GetLayout begin of
        Inl e \<Rightarrow> Inl e
      | Inr l \<Rightarrow>
          if length index \<noteq> NumDimensions l then Inl (InputException invalidArgument)
          else if \<not> list_all (\<lambda>d. d < length index) (layout_dimensionOrder l)
          then Inl undefined_behaviour
          else Inr (begin\<lparr>value_data :=
                      map_option (\<lambda>(b, p). (b, p + GetLogicalEntryOffset l index))
                        (value_data begin)\<rparr>))"

text \<open>
  Modelled from the spec: \<open>Allocate\<close> creates new storage for a layout: a buffer of
  zeros that holds the whole extent, at an address no existing value points to.
\<close>

definition Allocate :: "store \<Rightarrow> ValueType \<Rightarrow> MemoryLayout \<Rightarrow> Value \<times> store" where
  "Allocate s t l =
     (\<lparr>value_type = t, value_data = Some (length s, 0), value_layout = Some l\<rparr>,
      s @ [replicate (nat (prod_list (layout_extent l))) 0])"

text \<open>
  Modelled from the spec: reading and writing, in the immediate context, the element a
  value points to. An access through a null pointer or outside the buffer is undefined
  behaviour.
\<close>

definition load :: "store \<Rightarrow> Value \<Rightarrow> failure + int" where
  "load s v =
     (case value_data v of
        None \<Rightarrow> Inl undefined_behaviour
      | Some (b, p) \<Rightarrow>
          if b < length s \<and> 0 \<le> p \<and> p < int (length (s ! b))
          then Inr (s ! b ! nat p)
          else Inl undefined_behaviour)"

definition store_elem :: "store \<Rightarrow> Value \<Rightarrow> int \<Rightarrow> failure + store" where
  "store_elem s v x =
     (case value_data v of
        None \<Rightarrow> Inl undefined_behaviour
      | Some (b, p) \<Rightarrow>
          if b < length s \<and> 0 \<le> p \<and> p < int (length (s ! b))
          then Inr (s[b := (s ! b)[nat p := x]])
          else Inl undefined_behaviour)"

text \<open>
  Modelled from the spec: the compound assignment \<open>+=\<close> of \<open>Scalar\<close> in the
  immediate context reads both elements and writes the sum to the left one.
\<close>

definition Scalar_plus_eq :: "store \<Rightarrow> Value \<Rightarrow> Value \<Rightarrow> failure + store" where
  "Scalar_plus_eq s lhs rhs =
     (case load s rhs of
        Inl e \<Rightarrow> Inl e
      | Inr r \<Rightarrow>
          (case load s lhs of
             Inl e \<Rightarrow> Inl e
           | Inr l \<Rightarrow> store_elem s lhs (l + r)))"

text \<open>
  A loop over a list of iteration values whose body may fail: the first failure ends
  the loop, and the store is the one reached at that point.
\<close>

fun forEach ::
  "('i \<Rightarrow> store \<Rightarrow> failure + store) \<Rightarrow> 'i list \<Rightarrow> store \<Rightarrow> (failure + unit) \<times> store" where
  "forEach body [] s = (Inr (), s)"
| "forEach body (i # is) s =
     (case body i s of
        Inl e \<Rightarrow> (Inl e, s)
      | Inr s' \<Rightarrow> forEach body is s')"

text \<open>
  Modelled from the spec: the logical coordinates of a region with the given active
  sizes, in row-major logical order (the last coordinate moves fastest). Elementwise
  loops and copies traverse a region in this order.
\<close>

fun allCoordinates :: "int list \<Rightarrow> int list list" where
  "allCoordinates [] = [[]]"
| "allCoordinates (n # ns) =
     concat (map (\<lambda>i. map (\<lambda>c. i # c) (allCoordinates ns)) [0..n - 1])"

definition GetLogicalActiveSize :: "MemoryLayout \<Rightarrow> int list" where
  "GetLogicalActiveSize l = map (GetLogicalDimensionActiveSize l) [0..<NumDimensions l]"

text \<open>
  Modelled from the spec: copying the data of one value into the storage of another
  value with the same layout, entry by entry.
\<close>

definition copyEntry :: "Value \<Rightarrow> Value \<Rightarrow> int list \<Rightarrow> store \<Rightarrow> failure + store" where
  "copyEntry source destination c s =
     (case Offset source c of
        Inl e \<Rightarrow> Inl e
      | Inr src \<Rightarrow>
          (case load s src of
             Inl e \<Rightarrow> Inl e
           | Inr x \<Rightarrow>
               (case Offset destination c of
                  Inl e \<Rightarrow> Inl e
                | Inr dst \<Rightarrow> store_elem s dst x)))"

definition CopyData :: "store \<Rightarrow> Value \<Rightarrow> Value \<Rightarrow> MemoryLayout \<Rightarrow> (failure + unit) \<times> store" where
  "CopyData s source destination l =
     forEach (copyEntry source destination) (allCoordinates (GetLogicalActiveSize l)) s"

text \<open>
  Modelled from the spec: assignment to a \<open>Value\<close>. A value that is not yet defined
  becomes another handle on the assigned value. A defined, constrained value keeps its
  own storage and receives the data of the assigned value, which must have the same
  element type and the same layout.
\<close>

definition Value_assign :: "store \<Rightarrow> Value \<Rightarrow> Value \<Rightarrow> (failure + Value) \<times> store" where
  "Value_assign s this other =
     (if \<not> IsDefined this then (Inr other, s)
      else if GetBaseType this \<noteq> GetBaseType other
      then (Inl (InputException typeMismatch), s)
      else
        (case value_layout this of
           None \<Rightarrow> (Inr other, s)
         | Some l \<Rightarrow>
             if value_layout other \<noteq> Some l then (Inl (InputException sizeMismatch), s)
             else
               (case CopyData s other this l of
                  (Inl e, s') \<Rightarrow> (Inl e, s')
                | (Inr u, s') \<Rightarrow> (Inr this, s'))))"

section \<open>Matrix.cpp\<close>

text \<open>A \<open>Matrix\<close> and a \<open>Vector\<close> each wrap one \<open>Value\<close>, the member \<open>_value\<close>.\<close>

record Matrix =
  m_value :: Value



text \<open>
  \<open>Matrix::Matrix()\<close>: the default constructor wraps a default \<open>Value\<close>. Such a
  matrix is an empty handle, not a view over a value.
\<close>

definition Matrix_default :: Matrix where
  "Matrix_default = \<lparr>m_value = Value_default\<rparr>"

text \<open>
  \<open>Matrix::Matrix(Value)\<close>. The three tests are evaluated left to right, so the layout
  is read only of a constrained value.
\<close>

definition Matrix_ctor :: "Value \<Rightarrow> failure + Matrix" where
  "Matrix_ctor v =
     (if \<not> IsDefined v \<or> \<not> IsConstrained v then Inl (InputException invalidArgument)
      else
        (case GetLayout v of
           Inl e \<Rightarrow> Inl e
         | Inr l \<Rightarrow>
             if NumDimensions l \<noteq> 2 then Inl (InputException invalidArgument)
             else Inr \<lparr>m_value = v\<rparr>))"

text \<open>
  \<open>Matrix::operator()(Scalar, Scalar)\<close>: a value with the scalar layout that points
  to the element.
\<close>

definition Matrix_at :: "Matrix \<Rightarrow> int \<Rightarrow> int \<Rightarrow> failure + Value" where
  "Matrix_at this rowIndex columnIndex =
     (case Offset (m_value this) [rowIndex, columnIndex] of
        Inl e \<Rightarrow> Inl e
      | Inr indexedValue \<Rightarrow> Inr (SetLayout indexedValue ScalarLayout))"

definition GetValue :: "Matrix \<Rightarrow> Value" where
  "GetValue this = m_value this"

text \<open>
  \<open>Matrix::SubMatrix\<close>. The loop over \<open>index = 0, 1\<close> reads
  \<open>logicalDimensions[dimensionOrder[index]]\<close> from an array of two elements; the
  result is converted to a \<open>Matrix\<close> by the constructor above.
\<close>

definition SubMatrix :: "Matrix \<Rightarrow> int \<Rightarrow> int \<Rightarrow> int \<Rightarrow> int \<Rightarrow> failure + Matrix" where
  "SubMatrix this row column numRows numColumns =
     (case GetLayout (m_value this) of
        Inl e \<Rightarrow> Inl e
      | Inr currentLayout \<Rightarrow>
          if numRows > GetLogicalDimensionActiveSize currentLayout 0
             \<or> numColumns > GetLogicalDimensionActiveSize currentLayout 1
          then Inl (InputException indexOutOfRange)
          else
            (case Offset (m_value this) [row, column] of
               Inl e \<Rightarrow> Inl e
             | Inr indexedValue \<Rightarrow>
                 let dimensionOrder = GetLogicalDimensionOrder currentLayout;
                     logicalDimensions = [numRows, numColumns]
                 in if length dimensionOrder \<noteq> 2 then Inl assertion_failure
                    else if \<not> list_all (\<lambda>d. d < 2) dimensionOrder then Inl undefined_behaviour
                    else
                      let physicalDimensions =
                            map (\<lambda>index. logicalDimensions ! (dimensionOrder ! index)) [0, 1]
                      in (case MemoryLayout_ctor physicalDimensions (GetExtent currentLayout)
                                 [0, 0] dimensionOrder of
                            Inl e \<Rightarrow> Inl e
                          | Inr newLayout \<Rightarrow> Matrix_ctor (SetLayout indexedValue newLayout))))"

text \<open>
  \<open>Matrix::Copy\<close>: new storage is allocated for the type and layout of this matrix,
  and the value of this matrix is assigned to it.
\<close>

definition Copy :: "store \<Rightarrow> Matrix \<Rightarrow> (failure + Matrix) \<times> store" where
  "Copy s this =
     (case GetLayout (m_value this) of
        Inl e \<Rightarrow> (Inl e, s)
      | Inr l \<Rightarrow>
          (case Allocate s (GetBaseType (m_value this)) l of
             (newValue, s1) \<Rightarrow>
               (case Value_assign s1 newValue (m_value this) of
                  (Inl e, s2) \<Rightarrow> (Inl e, s2)
                | (Inr assigned, s2) \<Rightarrow> (Matrix_ctor assigned, s2))))"



text \<open>
  \<open>Rows\<close> and \<open>Columns\<close> convert the active size, an \<open>int\<close>, to \<open>size_t\<close>: the
  value modulo \<open>2 ^ 64\<close>.
\<close>

definition Rows :: "Matrix \<Rightarrow> failure + nat" where
  "Rows this =
     (case GetLayout (m_value this) of
        Inl e \<Rightarrow> Inl e
      | Inr l \<Rightarrow> Inr (nat (GetLogicalDimensionActiveSize l 0 mod 2 ^ 64)))"

definition Columns :: "Matrix \<Rightarrow> failure + nat" where
  "Columns this =
     (case GetLayout (m_value this) of
        Inl e \<Rightarrow> Inl e
      | Inr l \<Rightarrow> Inr (nat (GetLogicalDimensionActiveSize l 1 mod 2 ^ 64)))"

definition Type :: "Matrix \<Rightarrow> ValueType" where
  "Type this = GetBaseType (m_value this)"

text \<open>
  Modelled from the spec: \<open>For(matrix, fn)\<close> calls \<open>fn(row, column)\<close> for every
  entry of the matrix, in row-major logical order.
\<close>

definition For_Matrix ::
  "Matrix \<Rightarrow> (int \<Rightarrow> int \<Rightarrow> store \<Rightarrow> failure + store) \<Rightarrow> store \<Rightarrow> (failure + unit) \<times> store" where
  "For_Matrix matrix fn s =
     (case GetLayout (m_value matrix) of
        Inl e \<Rightarrow> (Inl e, s)
      | Inr l \<Rightarrow>
          if NumDimensions l \<noteq> 2 then (Inl (InputException invalidArgument), s)
          else forEach (\<lambda>c. fn (c ! 0) (c ! 1)) (allCoordinates (GetLogicalActiveSize l)) s)"

text \<open>
  \<open>Matrix::operator+=(Matrix)\<close>. The four sizes are read from the layouts of the two
  matrices; reading one fails exactly when the matrix has no layout. The result is the
  outcome of the call together with the store it leaves.
\<close>

definition Matrix_plus_eq :: "store \<Rightarrow> Matrix \<Rightarrow> Matrix \<Rightarrow> (failure + unit) \<times> store" where
  "Matrix_plus_eq s this m =
     (case Rows m of
        Inl e \<Rightarrow> (Inl e, s)
      | Inr mRows \<Rightarrow>
     (case Rows this of
        Inl e \<Rightarrow> (Inl e, s)
      | Inr rows \<Rightarrow>
     (case Columns m of
        Inl e \<Rightarrow> (Inl e, s)
      | Inr mColumns \<Rightarrow>
     (case Columns this of
        Inl e \<Rightarrow> (Inl e, s)
      | Inr columns \<Rightarrow>
          if mRows \<noteq> rows \<and> mColumns \<noteq> columns
          then (Inl (InputException sizeMismatch), s)
          else if Type m \<noteq> Type this
          then (Inl (InputException typeMismatch), s)
          else For_Matrix m
                 (\<lambda>row column s'.
                    case Matrix_at this row column of
                      Inl e \<Rightarrow> Inl e
                    | Inr lhs \<Rightarrow>
                        (case Matrix_at m row column of
                           Inl e \<Rightarrow> Inl e
                         | Inr rhs \<Rightarrow> Scalar_plus_eq s' lhs rhs))
                 s))))"

text \<open>Reading and writing an element of a matrix through \<open>operator()\<close>.\<close>

definition Matrix_get :: "store \<Rightarrow> Matrix \<Rightarrow> int \<Rightarrow> int \<Rightarrow> failure + int" where
  "Matrix_get s this rowIndex columnIndex =
     (case Matrix_at this rowIndex columnIndex of
        Inl e \<Rightarrow> Inl e
      | Inr element \<Rightarrow> load s element)"

definition Matrix_set :: "store \<Rightarrow> Matrix \<Rightarrow> int \<Rightarrow> int \<Rightarrow> int \<Rightarrow> failure + store" where
  "Matrix_set s this rowIndex columnIndex x =
     (case Matrix_at this rowIndex columnIndex of
        Inl e \<Rightarrow> Inl e
      | Inr element \<Rightarrow> store_elem s element x)"

section \<open>IRLoopEmitter.h: the loop emitters\<close>

text \<open>
  The header declares the two loop emitters and their block members; the bodies of
  their member functions and the function emitter they write into are not available
  here. This section models the emitted code: a function is a table of basic blocks,
  a block is a list of instructions, and a block is named by its index in the table.
\<close>

text \<open>
  Modelled from the spec: the comparisons of \<open>TypedComparison\<close> on integers, and the
  values an instruction can use: a literal or the value loaded from a variable.
\<close>

datatype TypedComparison =
  equals | lessThan | lessThanOrEquals | greaterThan | greaterThanOrEquals | notEquals

datatype LLVMValue = Literal int | LoadOf nat

text \<open>
  Modelled from the spec: the instructions the loop emitters need. \<open>StoreInst\<close> writes
  a variable, \<open>AddUpdateInst\<close> adds to a variable in place, \<open>ObserveInst\<close> stands for
  body code that uses the current value of a variable, \<open>BranchInst\<close> is the
  unconditional branch, \<open>CondBranchInst\<close> compares two values and branches to the
  first block if the comparison holds and to the second otherwise, and
  \<open>TestBranchInst\<close> does the same on the truth of a test variable.
\<close>

datatype instruction =
    StoreInst nat LLVMValue
  | AddUpdateInst nat LLVMValue
  | ObserveInst nat
  | BranchInst nat
  | CondBranchInst TypedComparison LLVMValue LLVMValue nat nat
  | TestBranchInst nat nat nat

text \<open>
  Modelled from the spec: the function emitter, a structured builder that appends
  instructions to its current block. \<open>Block\<close> adds an empty block to the function and
  returns it, \<open>SetCurrentBlock\<close> moves the insertion point, \<open>Variable\<close> creates a new
  variable, and \<open>Branch\<close>, \<open>Store\<close> and \<open>OperationAndUpdate\<close> each append one
  instruction.
\<close>

record IRFunctionEmitter =
  fn_blocks :: "instruction list list"
  fn_currentBlock :: nat
  fn_numVariables :: nat

definition Block :: "IRFunctionEmitter \<Rightarrow> nat \<times> IRFunctionEmitter" where
  "Block fe = (length (fn_blocks fe), fe\<lparr>fn_blocks := fn_blocks fe @ [[]]\<rparr>)"

definition SetCurrentBlock :: "nat \<Rightarrow> IRFunctionEmitter \<Rightarrow> IRFunctionEmitter" where
  "SetCurrentBlock b fe = fe\<lparr>fn_currentBlock := b\<rparr>"

definition Emit :: "instruction \<Rightarrow> IRFunctionEmitter \<Rightarrow> IRFunctionEmitter" where
  "Emit i fe =
     fe\<lparr>fn_blocks := (fn_blocks fe)[fn_currentBlock fe :=
                         fn_blocks fe ! fn_currentBlock fe @ [i]]\<rparr>"

definition Variable :: "IRFunctionEmitter \<Rightarrow> nat \<times> IRFunctionEmitter" where
  "Variable fe = (fn_numVariables fe, fe\<lparr>fn_numVariables := Suc (fn_numVariables fe)\<rparr>)"

definition Branch :: "nat \<Rightarrow> IRFunctionEmitter \<Rightarrow> IRFunctionEmitter" where
  "Branch target fe = Emit (BranchInst target) fe"

definition BranchIf ::
  "TypedComparison \<Rightarrow> LLVMValue \<Rightarrow> LLVMValue \<Rightarrow> nat \<Rightarrow> nat \<Rightarrow> IRFunctionEmitter \<Rightarrow> IRFunctionEmitter" where
  "BranchIf comparison a b thenBlock elseBlock fe =
     Emit (CondBranchInst comparison a b thenBlock elseBlock) fe"


definition Store :: "nat \<Rightarrow> LLVMValue \<Rightarrow> IRFunctionEmitter \<Rightarrow> IRFunctionEmitter" where
  "Store var val fe = Emit (StoreInst var val) fe"

definition OperationAndUpdate :: "nat \<Rightarrow> LLVMValue \<Rightarrow> IRFunctionEmitter \<Rightarrow> IRFunctionEmitter" where
  "OperationAndUpdate var val fe = Emit (AddUpdateInst var val) fe"

text \<open>The caller's code between \<open>Begin\<close> and \<open>End\<close>: instructions appended in order.\<close>

fun EmitAll :: "instruction list \<Rightarrow> IRFunctionEmitter \<Rightarrow> IRFunctionEmitter" where
  "EmitAll [] fe = fe"
| "EmitAll (i # is) fe = EmitAll is (Emit i fe)"

subsection \<open>IRForLoopEmitter\<close>

text \<open>
  The members of \<open>IRForLoopEmitter\<close>, each initialised with \<open>nullptr\<close> (\<open>None\<close>)
  in the header.
\<close>

record IRForLoopEmitter =
  for_pInitializationBlock :: "nat option"
  for_pConditionBlock :: "nat option"
  for_pBodyBlock :: "nat option"
  for_pIncrementBlock :: "nat option"
  for_pAfterBlock :: "nat option"
  for_pIterationVariable :: "nat option"

definition IRForLoopEmitter_ctor :: IRForLoopEmitter where
  "IRForLoopEmitter_ctor =
     \<lparr>for_pInitializationBlock = None, for_pConditionBlock = None, for_pBodyBlock = None,
      for_pIncrementBlock = None, for_pAfterBlock = None, for_pIterationVariable = None\<rparr>"

text \<open>
  Modelled from the spec: the member functions of \<open>IRForLoopEmitter\<close>, which are
  declared in the header and defined in \<open>IRLoopEmitter.cpp\<close>. The loop is a state
  machine of five blocks, wired Initialization to Condition, Condition to Body or
  After by a conditional branch, Body to Increment, and Increment to Condition. A
  member function that would use a block pointer that is still null has no result.
\<close>

definition ForLoop_CreateBlocks ::
  "IRForLoopEmitter \<times> IRFunctionEmitter \<Rightarrow> IRForLoopEmitter \<times> IRFunctionEmitter" where
  "ForLoop_CreateBlocks st =
     (case st of (loop, fe) \<Rightarrow>
        (case Block fe of (pInit, fe1) \<Rightarrow>
        (case Block fe1 of (pCond, fe2) \<Rightarrow>
        (case Block fe2 of (pBody, fe3) \<Rightarrow>
        (case Block fe3 of (pInc, fe4) \<Rightarrow>
        (case Block fe4 of (pAfter, fe5) \<Rightarrow>
           (loop\<lparr>for_pInitializationBlock := Some pInit, for_pConditionBlock := Some pCond,
                 for_pBodyBlock := Some pBody, for_pIncrementBlock := Some pInc,
                 for_pAfterBlock := Some pAfter\<rparr>, fe5)))))))"

definition ForLoop_EmitIterationVariable ::
  "LLVMValue \<Rightarrow> IRForLoopEmitter \<times> IRFunctionEmitter \<Rightarrow> (IRForLoopEmitter \<times> IRFunctionEmitter) option" where
  "ForLoop_EmitIterationVariable pStartValue st =
     (case st of (loop, fe) \<Rightarrow>
        (case for_pInitializationBlock loop of
           None \<Rightarrow> None
         | Some pInit \<Rightarrow>
             (case Variable (SetCurrentBlock pInit (Branch pInit fe)) of
                (var, fe1) \<Rightarrow>
                  Some (loop\<lparr>for_pIterationVariable := Some var\<rparr>, Store var pStartValue fe1))))"

definition ForLoop_EmitCondition ::
  "TypedComparison \<Rightarrow> LLVMValue \<Rightarrow> IRForLoopEmitter \<times> IRFunctionEmitter
     \<Rightarrow> (IRForLoopEmitter \<times> IRFunctionEmitter) option" where
  "ForLoop_EmitCondition comparison pTestValue st =
     (case st of (loop, fe) \<Rightarrow>
        (case (for_pConditionBlock loop, for_pBodyBlock loop, for_pAfterBlock loop,
               for_pIterationVariable loop) of
           (Some pCond, Some pBody, Some pAfter, Some var) \<Rightarrow>
             Some (loop, BranchIf comparison (LoadOf var) pTestValue pBody pAfter
                           (SetCurrentBlock pCond (Branch pCond fe)))
         | _ \<Rightarrow> None))"

definition ForLoop_EmitIncrement ::
  "LLVMValue \<Rightarrow> IRForLoopEmitter \<times> IRFunctionEmitter \<Rightarrow> (IRForLoopEmitter \<times> IRFunctionEmitter) option" where
  "ForLoop_EmitIncrement pIncrementValue st =
     (case st of (loop, fe) \<Rightarrow>
        (case (for_pIncrementBlock loop, for_pConditionBlock loop, for_pIterationVariable loop) of
           (Some pInc, Some pCond, Some var) \<Rightarrow>
             Some (loop, Branch pCond
                           (OperationAndUpdate var pIncrementValue (SetCurrentBlock pInc fe)))
         | _ \<Rightarrow> None))"

definition ForLoop_PrepareBody ::
  "IRForLoopEmitter \<times> IRFunctionEmitter \<Rightarrow> (IRForLoopEmitter \<times> IRFunctionEmitter) option" where
  "ForLoop_PrepareBody st =
     (case st of (loop, fe) \<Rightarrow>
        (case for_pBodyBlock loop of
           None \<Rightarrow> None
         | Some pBody \<Rightarrow> Some (loop, SetCurrentBlock pBody fe)))"

text \<open>
  The four overloads of \<open>Begin\<close>. The one that takes three values emits the loop;
  the one that takes three integers passes them on as literals; a loop that repeats a
  given number of times counts from 0 in steps of 1.
\<close>

definition ForLoop_Begin_values ::
  "LLVMValue \<Rightarrow> LLVMValue \<Rightarrow> LLVMValue \<Rightarrow> IRForLoopEmitter \<times> IRFunctionEmitter
     \<Rightarrow> (IRForLoopEmitter \<times> IRFunctionEmitter) option" where
  "ForLoop_Begin_values iStartAt iMaxValue stepSize st =
     (case ForLoop_EmitIterationVariable iStartAt (ForLoop_CreateBlocks st) of
        None \<Rightarrow> None
      | Some st1 \<Rightarrow>
          (case ForLoop_EmitCondition lessThan iMaxValue st1 of
             None \<Rightarrow> None
           | Some st2 \<Rightarrow>
               (case ForLoop_EmitIncrement stepSize st2 of
                  None \<Rightarrow> None
                | Some st3 \<Rightarrow> ForLoop_PrepareBody st3)))"

definition ForLoop_Begin ::
  "int \<Rightarrow> int \<Rightarrow> int \<Rightarrow> IRForLoopEmitter \<times> IRFunctionEmitter
     \<Rightarrow> (IRForLoopEmitter \<times> IRFunctionEmitter) option" where
  "ForLoop_Begin iStartAt iMaxValue stepSize st =
     ForLoop_Begin_values (Literal iStartAt) (Literal iMaxValue) (Literal stepSize) st"



text \<open>\<open>End()\<close>: the body branches to the increment, and emission goes on in After.\<close>

definition ForLoop_End ::
  "IRForLoopEmitter \<times> IRFunctionEmitter \<Rightarrow> (IRForLoopEmitter \<times> IRFunctionEmitter) option" where
  "ForLoop_End st =
     (case st of (loop, fe) \<Rightarrow>
        (case (for_pIncrementBlock loop, for_pAfterBlock loop) of
           (Some pInc, Some pAfter) \<Rightarrow> Some (loop, SetCurrentBlock pAfter (Branch pInc fe))
         | _ \<Rightarrow> None))"

subsection \<open>IRWhileLoopEmitter\<close>











subsection \<open>The control flow and the execution of emitted code\<close>




text \<open>
  Modelled from the spec: what the emitted instructions compute when the function runs.
  Variables hold 32-bit signed integers: an addition wraps around. A variable that was
  never stored has no value, and code that reads it has no result.
\<close>

definition wrap32 :: "int \<Rightarrow> int" where
  "wrap32 x = (x + 2 ^ 31) mod 2 ^ 32 - 2 ^ 31"

fun evalComparison :: "TypedComparison \<Rightarrow> int \<Rightarrow> int \<Rightarrow> bool" where
  "evalComparison equals a b = (a = b)"
| "evalComparison lessThan a b = (a < b)"
| "evalComparison lessThanOrEquals a b = (a \<le> b)"
| "evalComparison greaterThan a b = (a > b)"
| "evalComparison greaterThanOrEquals a b = (a \<ge> b)"
| "evalComparison notEquals a b = (a \<noteq> b)"

fun evalValue :: "(nat \<Rightarrow> int option) \<Rightarrow> LLVMValue \<Rightarrow> int option" where
  "evalValue vars (Literal n) = Some n"
| "evalValue vars (LoadOf v) = vars v"

text \<open>
  Running one block from a state (the variables and the values observed so far): the
  result is the new state and the block to continue with, or no block when the
  instructions end without a branch.
\<close>

fun execBlock ::
  "instruction list \<Rightarrow> (nat \<Rightarrow> int option) \<times> int list
     \<Rightarrow> (((nat \<Rightarrow> int option) \<times> int list) \<times> nat option) option" where
  "execBlock [] st = Some (st, None)"
| "execBlock (StoreInst v x # rest) (vars, obs) =
     (case evalValue vars x of
        None \<Rightarrow> None
      | Some n \<Rightarrow> execBlock rest (vars(v \<mapsto> n), obs))"
| "execBlock (AddUpdateInst v x # rest) (vars, obs) =
     (case (vars v, evalValue vars x) of
        (Some a, Some n) \<Rightarrow> execBlock rest (vars(v \<mapsto> wrap32 (a + n)), obs)
      | _ \<Rightarrow> None)"
| "execBlock (ObserveInst v # rest) (vars, obs) =
     (case vars v of
        None \<Rightarrow> None
      | Some a \<Rightarrow> execBlock rest (vars, obs @ [a]))"
| "execBlock (BranchInst t # rest) st = Some (st, Some t)"
| "execBlock (CondBranchInst c a b t e # rest) (vars, obs) =
     (case (evalValue vars a, evalValue vars b) of
        (Some x, Some y) \<Rightarrow> Some ((vars, obs), Some (if evalComparison c x y then t else e))
      | _ \<Rightarrow> None)"
| "execBlock (TestBranchInst v t e # rest) (vars, obs) =
     (case vars v of
        None \<Rightarrow> None
      | Some x \<Rightarrow> Some ((vars, obs), Some (if x \<noteq> 0 then t else e)))"

text \<open>
  Running a function from a block, with a bound on the number of blocks entered. The
  result lists the blocks entered, in order, and the values observed; there is no
  result when the bound is reached, a branch leads outside the function or an
  instruction has no result.
\<close>

fun run ::
  "nat \<Rightarrow> instruction list list \<Rightarrow> nat \<Rightarrow> (nat \<Rightarrow> int option) \<times> int list \<Rightarrow> nat list
     \<Rightarrow> (nat list \<times> int list) option" where
  "run 0 blocks b st entered = None"
| "run (Suc fuel) blocks b st entered =
     (if b \<ge> length blocks then None
      else
        (case execBlock (blocks ! b) st of
           None \<Rightarrow> None
         | Some (st', None) \<Rightarrow> Some (entered @ [b], snd st')
         | Some (st', Some next) \<Rightarrow> run fuel blocks next st' (entered @ [b])))"

text \<open>A function emitter at the start of a function: one empty entry block.\<close>

definition newFunction :: IRFunctionEmitter where
  "newFunction = \<lparr>fn_blocks = [[]], fn_currentBlock = 0, fn_numVariables = 0\<rparr>"

text \<open>
  Modelled from the spec: a complete for loop and a complete while loop, as a caller
  emits them: one of the overloads of \<open>Begin\<close>, the instructions of the body (which
  in a for loop may use the iteration variable), \<open>End\<close>.
\<close>

definition emitForLoop ::
  "(IRForLoopEmitter \<times> IRFunctionEmitter \<Rightarrow> (IRForLoopEmitter \<times> IRFunctionEmitter) option)
     \<Rightarrow> (nat \<Rightarrow> instruction list) \<Rightarrow> IRFunctionEmitter
     \<Rightarrow> (IRForLoopEmitter \<times> IRFunctionEmitter) option" where
  "emitForLoop begin body fe =
     (case begin (IRForLoopEmitter_ctor, fe) of
        None \<Rightarrow> None
      | Some (loop, fe1) \<Rightarrow>
          (case for_pIterationVariable loop of
             None \<Rightarrow> None
           | Some i \<Rightarrow> ForLoop_End (loop, EmitAll (body i) fe1)))"


section \<open>Example values\<close>

text \<open>
  A value of the given element type that starts at position 0 of a buffer and has the
  canonical row-major layout of a matrix with \<open>r\<close> rows and \<open>c\<close> columns.
\<close>

definition matrixValue :: "nat \<Rightarrow> ValueType \<Rightarrow> int \<Rightarrow> int \<Rightarrow> Value" where
  "matrixValue b t r c =
     \<lparr>value_type = t, value_data = Some (b, 0),
      value_layout = Some \<lparr>layout_size = [r, c], layout_extent = [r, c],
                            layout_offset = [0, 0], layout_increment = [c, 1],
                            layout_dimensionOrder = [0, 1]\<rparr>\<rparr>"

section \<open>Properties of StlContainerIteratorBase\<close>

lemma Next_invalid_id: "\<not> IsValid it \<Longrightarrow> Next it = it"
  by (simp add: Next_def)

lemma Next_funpow_invalid: "\<not> IsValid it \<Longrightarrow> (Next ^^ n) it = it"
  by (induction n) (simp_all add: Next_invalid_id)

lemma NumItemsLeft_invalid: "\<not> IsValid it \<Longrightarrow> NumItemsLeft it = 0"
  by (simp add: IsValid_def NumItemsLeft_def)

lemma NumItemsLeft_valid_nonzero: "IsValid it \<Longrightarrow> NumItemsLeft it \<noteq> 0"
  by (simp add: IsValid_def NumItemsLeft_def)

lemma NumItemsLeft_Next_word: "IsValid it \<Longrightarrow> NumItemsLeft (Next it) = NumItemsLeft it - 1"
  by (simp add: Next_def NumItemsLeft_def)

lemma unat_minus_one_nonzero: "w \<noteq> 0 \<Longrightarrow> unat (w - 1) = unat w - 1"
  by (simp add: unat_minus_one)

text \<open>
  C10. Calling \<open>Next\<close> on an iterator that is not valid leaves it unchanged, so after
  any number of further calls the iterator is the same, \<open>IsValid\<close> is still false and
  \<open>NumItemsLeft\<close> is still 0. On a valid iterator \<open>Next\<close> lowers \<open>NumItemsLeft\<close>
  (read as an unsigned number) by exactly one.
\<close>

theorem Next_after_end_and_before:
  "(\<not> IsValid it \<longrightarrow>
       Next it = it \<and> (Next ^^ n) it = it \<and> \<not> IsValid ((Next ^^ n) it)
       \<and> NumItemsLeft it = 0 \<and> NumItemsLeft ((Next ^^ n) it) = 0)
   \<and> (IsValid it \<longrightarrow>
       0 < unat (NumItemsLeft it)
       \<and> unat (NumItemsLeft (Next it)) = unat (NumItemsLeft it) - 1)"
proof (intro conjI impI)
  assume inv: "\<not> IsValid it"
  show "Next it = it" using inv by (rule Next_invalid_id)
  show pow: "(Next ^^ n) it = it" using inv by (rule Next_funpow_invalid)
  show "\<not> IsValid ((Next ^^ n) it)" using inv pow by simp
  show z: "NumItemsLeft it = 0" using inv by (rule NumItemsLeft_invalid)
  show "NumItemsLeft ((Next ^^ n) it) = 0" using z pow by simp
next
  assume val: "IsValid it"
  have nz: "NumItemsLeft it \<noteq> 0" using val by (rule NumItemsLeft_valid_nonzero)
  show "0 < unat (NumItemsLeft it)" using nz by (simp add: unat_gt_0)
  show "unat (NumItemsLeft (Next it)) = unat (NumItemsLeft it) - 1"
    using val nz by (simp add: NumItemsLeft_Next_word unat_minus_one_nonzero)
qed

theorem Next_after_end_and_before_witness:
  "\<not> IsValid (StlContainerIteratorBase_ctor (6 :: 64 word) 6)
   \<and> (Next ^^ 3) (StlContainerIteratorBase_ctor (6 :: 64 word) 6) = StlContainerIteratorBase_ctor 6 6
   \<and> NumItemsLeft ((Next ^^ 3) (StlContainerIteratorBase_ctor (6 :: 64 word) 6)) = 0
   \<and> IsValid (StlContainerIteratorBase_ctor (0 :: 64 word) 6)
   \<and> unat (NumItemsLeft (StlContainerIteratorBase_ctor (0 :: 64 word) 6)) = 6
   \<and> unat (NumItemsLeft (Next (StlContainerIteratorBase_ctor (0 :: 64 word) 6))) = 5"
proof -
  have a: "\<not> IsValid (StlContainerIteratorBase_ctor (6 :: 64 word) 6)"
    by (simp add: IsValid_def StlContainerIteratorBase_ctor_def)
  have b: "IsValid (StlContainerIteratorBase_ctor (0 :: 64 word) 6)"
    by (simp add: IsValid_def StlContainerIteratorBase_ctor_def)
  have c: "unat (NumItemsLeft (StlContainerIteratorBase_ctor (0 :: 64 word) 6)) = 6"
    by (simp add: NumItemsLeft_def StlContainerIteratorBase_ctor_def)
  show ?thesis
    using a b c
      Next_after_end_and_before [of "StlContainerIteratorBase_ctor (6 :: 64 word) 6" 3]
      Next_after_end_and_before [of "StlContainerIteratorBase_ctor (0 :: 64 word) 6" 0]
    by simp
qed

section \<open>Properties of the layer casts\<close>

lemma dynamic_cast_cases:
  "dynamic_cast target this = Some this \<or> dynamic_cast target this = None"
  by (simp add: dynamic_cast_def)

text \<open>
  C9. For every layer object and every target class, \<open>As\<close> returns the object itself
  exactly when \<open>Is\<close> answers true, which is exactly when the dynamic class of the object
  is the target or derives from it; otherwise \<open>As\<close> raises the type-mismatch exception.
  Every cast has one of these two defined outcomes.
\<close>

theorem Layer_As_safe_downcast:
  "(Layer_Is l target \<longleftrightarrow> target \<in> set (classChain (dynamicClass l)))
   \<and> (Layer_Is l target \<longrightarrow> Layer_As l target = Inr l)
   \<and> (\<not> Layer_Is l target \<longrightarrow> Layer_As l target = Inl (InputException typeMismatch))"
  by (simp add: Layer_Is_def Layer_As_def dynamic_cast_def)

theorem Layer_As_safe_downcast_witness:
  "Layer_Is \<lparr>dynamicClass = PReLUActivationLayer, parameters = ()\<rparr> ActivationLayer
   \<and> Layer_As \<lparr>dynamicClass = PReLUActivationLayer, parameters = ()\<rparr> ActivationLayer
       = Inr \<lparr>dynamicClass = PReLUActivationLayer, parameters = ()\<rparr>
   \<and> \<not> Layer_Is \<lparr>dynamicClass = PReLUActivationLayer, parameters = ()\<rparr> BiasLayer
   \<and> Layer_As \<lparr>dynamicClass = PReLUActivationLayer, parameters = ()\<rparr> BiasLayer
       = Inl (InputException typeMismatch)"
proof -
  have a: "Layer_Is \<lparr>dynamicClass = PReLUActivationLayer, parameters = ()\<rparr> ActivationLayer"
    by (simp add: Layer_Is_def dynamic_cast_def classChain_def)
  have b: "\<not> Layer_Is \<lparr>dynamicClass = PReLUActivationLayer, parameters = ()\<rparr> BiasLayer"
    by (simp add: Layer_Is_def dynamic_cast_def classChain_def)
  show ?thesis
    using a b
      Layer_As_safe_downcast [of "\<lparr>dynamicClass = PReLUActivationLayer, parameters = ()\<rparr>" ActivationLayer]
      Layer_As_safe_downcast [of "\<lparr>dynamicClass = PReLUActivationLayer, parameters = ()\<rparr>" BiasLayer]
    by simp
qed

section \<open>Properties of Matrix\<close>

lemma length2E: "length xs = 2 \<Longrightarrow> \<exists>a b. xs = [a, b]"
  by (cases xs; simp) (metis Suc_length_conv length_0_conv)

lemma IsPermutation_2: "IsPermutation order 2 \<Longrightarrow> order = [0, 1] \<or> order = [1, 0]"
proof -
  assume p: "IsPermutation order 2"
  then have "length order = 2" by (simp add: IsPermutation_def)
  then obtain a b where ab: "order = [a, b]" using length2E by blast
  with p have "a < 2" "b < 2" "a \<noteq> b" by (simp_all add: IsPermutation_def)
  then have "(a = 0 \<and> b = 1) \<or> (a = 1 \<and> b = 0)" by arith
  with ab show ?thesis by auto
qed

lemma Matrix_ctor_Inr:
  "Matrix_ctor v = Inr m \<Longrightarrow>
     m_value m = v \<and> IsDefined v \<and> (\<exists>l. value_layout v = Some l \<and> NumDimensions l = 2)"
  by (auto simp: Matrix_ctor_def GetLayout_def IsConstrained_def
           split: if_splits option.splits sum.splits)

lemma Matrix_ctor_matrixValue:
  "t \<noteq> Undefined \<Longrightarrow> Matrix_ctor (matrixValue b t r c) = Inr \<lparr>m_value = matrixValue b t r c\<rparr>"
  by (simp add: Matrix_ctor_def matrixValue_def IsDefined_def IsConstrained_def GetLayout_def
        NumDimensions_def)

lemma GetLayout_matrixValue:
  "GetLayout (matrixValue b t r c) =
     Inr \<lparr>layout_size = [r, c], layout_extent = [r, c], layout_offset = [0, 0],
          layout_increment = [c, 1], layout_dimensionOrder = [0, 1]\<rparr>"
  by (simp add: GetLayout_def matrixValue_def)

lemma Matrix_default_undefined:
  "\<not> IsDefined (GetValue Matrix_default) \<and> \<not> IsConstrained (GetValue Matrix_default)
   \<and> Matrix_ctor (GetValue Matrix_default) = Inl (InputException invalidArgument)"
  by (simp add: Matrix_default_def Value_default_def GetValue_def IsDefined_def
        IsConstrained_def Matrix_ctor_def)

text \<open>
  C6. Constructing a \<open>Matrix\<close> over a \<open>Value\<close> raises the invalid-argument exception
  unless the value is defined, is constrained and has a layout of exactly two
  dimensions; in that case the construction succeeds and wraps the value. So every
  matrix the constructor returns wraps a defined, constrained, two-dimensional value.
\<close>

theorem Matrix_ctor_requires_constrained_2d:
  "(\<not> (IsDefined v \<and> IsConstrained v \<and> map_option NumDimensions (value_layout v) = Some 2)
      \<longrightarrow> Matrix_ctor v = Inl (InputException invalidArgument))
   \<and> (IsDefined v \<and> IsConstrained v \<and> map_option NumDimensions (value_layout v) = Some 2
      \<longrightarrow> Matrix_ctor v = Inr \<lparr>m_value = v\<rparr>)
   \<and> (Matrix_ctor v = Inr m
      \<longrightarrow> GetValue m = v \<and> IsDefined (GetValue m) \<and> IsConstrained (GetValue m)
          \<and> map_option NumDimensions (value_layout (GetValue m)) = Some 2)"
  by (auto simp: Matrix_ctor_def GetLayout_def IsConstrained_def GetValue_def
           split: if_splits option.splits sum.splits)

theorem Matrix_ctor_requires_constrained_2d_witness:
  "Matrix_ctor Value_default = Inl (InputException invalidArgument)
   \<and> Matrix_ctor \<lparr>value_type = Int32, value_data = Some (0, 0), value_layout = None\<rparr>
       = Inl (InputException invalidArgument)
   \<and> Matrix_ctor \<lparr>value_type = Int32, value_data = Some (0, 0), value_layout = Some ScalarLayout\<rparr>
       = Inl (InputException invalidArgument)
   \<and> Matrix_ctor (matrixValue 0 Int32 3 4) = Inr \<lparr>m_value = matrixValue 0 Int32 3 4\<rparr>
   \<and> IsConstrained (GetValue \<lparr>m_value = matrixValue 0 Int32 3 4\<rparr>)"
proof -
  have a: "\<not> (IsDefined Value_default \<and> IsConstrained Value_default
               \<and> map_option NumDimensions (value_layout Value_default) = Some 2)"
    by (simp add: IsDefined_def Value_default_def)
  have b: "\<not> (IsDefined \<lparr>value_type = Int32, value_data = Some (0, 0), value_layout = None\<rparr>
               \<and> IsConstrained \<lparr>value_type = Int32, value_data = Some (0, 0), value_layout = None\<rparr>
               \<and> map_option NumDimensions
                    (value_layout \<lparr>value_type = Int32, value_data = Some (0, 0), value_layout = None\<rparr>)
                  = Some 2)"
    by (simp add: IsConstrained_def)
  have c: "\<not> (IsDefined \<lparr>value_type = Int32, value_data = Some (0, 0),
                          value_layout = Some ScalarLayout\<rparr>
               \<and> IsConstrained \<lparr>value_type = Int32, value_data = Some (0, 0),
                                 value_layout = Some ScalarLayout\<rparr>
               \<and> map_option NumDimensions
                    (value_layout \<lparr>value_type = Int32, value_data = Some (0, 0),
                                   value_layout = Some ScalarLayout\<rparr>)
                  = Some 2)"
    by (simp add: NumDimensions_def ScalarLayout_def)
  have d: "IsDefined (matrixValue 0 Int32 3 4) \<and> IsConstrained (matrixValue 0 Int32 3 4)
           \<and> map_option NumDimensions (value_layout (matrixValue 0 Int32 3 4)) = Some 2"
    by (simp add: IsDefined_def IsConstrained_def NumDimensions_def matrixValue_def)
  have e: "Matrix_ctor (matrixValue 0 Int32 3 4) = Inr \<lparr>m_value = matrixValue 0 Int32 3 4\<rparr>"
    using d Matrix_ctor_requires_constrained_2d [of "matrixValue 0 Int32 3 4"] by blast
  show ?thesis
    using a b c e
      Matrix_ctor_requires_constrained_2d [of Value_default]
      Matrix_ctor_requires_constrained_2d
        [of "\<lparr>value_type = Int32, value_data = Some (0, 0), value_layout = None\<rparr>"]
      Matrix_ctor_requires_constrained_2d
        [of "\<lparr>value_type = Int32, value_data = Some (0, 0), value_layout = Some ScalarLayout\<rparr>"]
      Matrix_ctor_requires_constrained_2d
        [of "matrixValue 0 Int32 3 4" "\<lparr>m_value = matrixValue 0 Int32 3 4\<rparr>"]
    by blast
qed

text \<open>
  C3. For every matrix whose value has a layout \<open>currentLayout\<close> (as every matrix
  constructed over a value has): when \<open>numRows\<close> is greater than the active size of
  logical dimension 0 (the rows) or \<open>numColumns\<close> is greater than the active size of
  logical dimension 1 (the columns), \<open>SubMatrix\<close> raises the index-out-of-range
  exception, whatever the starting row and column.
\<close>

theorem SubMatrix_extent_too_large:
  assumes "GetLayout (GetValue m) = Inr currentLayout"
    and "numRows > GetLogicalDimensionActiveSize currentLayout 0
         \<or> numColumns > GetLogicalDimensionActiveSize currentLayout 1"
  shows "SubMatrix m row column numRows numColumns = Inl (InputException indexOutOfRange)"
  using assms by (auto simp: SubMatrix_def GetValue_def)

theorem SubMatrix_extent_too_large_witness:
  "SubMatrix \<lparr>m_value = matrixValue 0 Int32 3 4\<rparr> 0 0 4 4 = Inl (InputException indexOutOfRange)
   \<and> SubMatrix \<lparr>m_value = matrixValue 0 Int32 3 4\<rparr> 0 0 3 5 = Inl (InputException indexOutOfRange)"
proof -
  let ?l = "\<lparr>layout_size = [3, 4], layout_extent = [3, 4], layout_offset = [0, 0],
             layout_increment = [4, 1], layout_dimensionOrder = [0, 1]\<rparr>"
  have b: "GetLayout (GetValue \<lparr>m_value = matrixValue 0 Int32 3 4\<rparr>) = Inr ?l"
    by (simp add: GetValue_def GetLayout_matrixValue)
  have c: "4 > GetLogicalDimensionActiveSize ?l 0 \<or> 4 > GetLogicalDimensionActiveSize ?l 1"
    by (simp add: GetLogicalDimensionActiveSize_def)
  have d: "3 > GetLogicalDimensionActiveSize ?l 0 \<or> 5 > GetLogicalDimensionActiveSize ?l 1"
    by (simp add: GetLogicalDimensionActiveSize_def)
  show ?thesis
    using SubMatrix_extent_too_large [OF b c, of 0 0]
      SubMatrix_extent_too_large [OF b d, of 0 0]
    by simp
qed

text \<open>
  C4. The range test of \<open>SubMatrix\<close> looks at \<open>numRows\<close> and \<open>numColumns\<close> only. For
  a matrix constructed over a value whose layout satisfies the layout invariant: when
  each requested extent is at most the active size of its dimension, \<open>SubMatrix\<close>
  returns a matrix without raising anything, also when the starting row plus
  \<open>numRows\<close>, or the starting column plus \<open>numColumns\<close>, lies past the active size.
\<close>

theorem SubMatrix_ignores_start:
  assumes ctor: "Matrix_ctor v = Inr m"
    and lay: "GetLayout (GetValue m) = Inr currentLayout"
    and inv: "MemoryLayout_invariant currentLayout"
    and fit: "numRows \<le> GetLogicalDimensionActiveSize currentLayout 0"
             "numColumns \<le> GetLogicalDimensionActiveSize currentLayout 1"
    and past: "row + numRows > GetLogicalDimensionActiveSize currentLayout 0
               \<or> column + numColumns > GetLogicalDimensionActiveSize currentLayout 1"
  shows "\<exists>sub. SubMatrix m row column numRows numColumns = Inr sub"
proof -
  from ctor have mv: "m_value m = v" and dfd: "IsDefined v"
    and "\<exists>l. value_layout v = Some l \<and> NumDimensions l = 2"
    using Matrix_ctor_Inr by blast+
  with lay have vl: "value_layout v = Some currentLayout" and nd: "NumDimensions currentLayout = 2"
    by (auto simp: GetLayout_def GetValue_def)
  from nd have ls: "length (layout_size currentLayout) = 2" by (simp add: NumDimensions_def)
  from inv ls have le: "length (layout_extent currentLayout) = 2"
    and lo: "length (layout_offset currentLayout) = 2"
    and perm: "IsPermutation (layout_dimensionOrder currentLayout) 2"
    by (simp_all add: MemoryLayout_invariant_def)
  obtain s0 s1 where sz: "layout_size currentLayout = [s0, s1]" using ls length2E by blast
  obtain e0 e1 where ex: "layout_extent currentLayout = [e0, e1]" using le length2E by blast
  obtain o0 o1 where off: "layout_offset currentLayout = [o0, o1]" using lo length2E by blast
  from inv sz ex off have bounds: "0 \<le> o0" "0 \<le> o1" "s0 + o0 \<le> e0" "s1 + o1 \<le> e1"
    by (simp_all add: MemoryLayout_invariant_def)
  from perm have "layout_dimensionOrder currentLayout = [0, 1]
                  \<or> layout_dimensionOrder currentLayout = [1, 0]"
    by (rule IsPermutation_2)
  then show ?thesis
  proof
    assume ord: "layout_dimensionOrder currentLayout = [0, 1]"
    with fit sz have "numRows \<le> s0" "numColumns \<le> s1"
      by (simp_all add: GetLogicalDimensionActiveSize_def)
    with bounds have "numRows \<le> e0" "numColumns \<le> e1" by arith+
    then show ?thesis
      using fit mv vl dfd ord sz ex off
      by (simp add: SubMatrix_def GetLayout_def Offset_def NumDimensions_def
            GetLogicalDimensionOrder_def GetExtent_def MemoryLayout_ctor_def IsPermutation_def
            Matrix_ctor_def SetLayout_def IsDefined_def IsConstrained_def)
  next
    assume ord: "layout_dimensionOrder currentLayout = [1, 0]"
    with fit sz have "numRows \<le> s1" "numColumns \<le> s0"
      by (simp_all add: GetLogicalDimensionActiveSize_def)
    with bounds have "numRows \<le> e1" "numColumns \<le> e0" by arith+
    then show ?thesis
      using fit mv vl dfd ord sz ex off
      by (simp add: SubMatrix_def GetLayout_def Offset_def NumDimensions_def
            GetLogicalDimensionOrder_def GetExtent_def MemoryLayout_ctor_def IsPermutation_def
            Matrix_ctor_def SetLayout_def IsDefined_def IsConstrained_def)
  qed
qed

theorem SubMatrix_ignores_start_witness:
  "\<exists>sub. SubMatrix \<lparr>m_value = matrixValue 0 Int32 3 4\<rparr> 2 3 3 4 = Inr sub"
proof -
  let ?l = "\<lparr>layout_size = [3, 4], layout_extent = [3, 4], layout_offset = [0, 0],
             layout_increment = [4, 1], layout_dimensionOrder = [0, 1]\<rparr>"
  have a: "Matrix_ctor (matrixValue 0 Int32 3 4) = Inr \<lparr>m_value = matrixValue 0 Int32 3 4\<rparr>"
    by (simp add: Matrix_ctor_matrixValue)
  have b: "GetLayout (GetValue \<lparr>m_value = matrixValue 0 Int32 3 4\<rparr>) = Inr ?l"
    by (simp add: GetValue_def GetLayout_matrixValue)
  have c: "MemoryLayout_invariant ?l"
    by (simp add: MemoryLayout_invariant_def IsPermutation_def)
  have d: "3 \<le> GetLogicalDimensionActiveSize ?l 0"
    by (simp add: GetLogicalDimensionActiveSize_def)
  have e: "4 \<le> GetLogicalDimensionActiveSize ?l 1"
    by (simp add: GetLogicalDimensionActiveSize_def)
  have f: "2 + 3 > GetLogicalDimensionActiveSize ?l 0 \<or> 3 + 4 > GetLogicalDimensionActiveSize ?l 1"
    by (simp add: GetLogicalDimensionActiveSize_def)
  show ?thesis
    using SubMatrix_ignores_start [OF a b c d e f] .
qed

text \<open>
  C5. For two matrices constructed over values, with the same number of rows and the
  same number of columns and different element types, \<open>m1 += m2\<close> raises the
  type-mismatch exception, which is not the size-mismatch exception, and the store is
  the one before the call.
\<close>

theorem Matrix_plus_eq_type_mismatch:
  assumes "Matrix_ctor v1 = Inr m1" and "Matrix_ctor v2 = Inr m2"
    and "Rows m2 = Rows m1" and "Columns m2 = Columns m1"
    and "Type m2 \<noteq> Type m1"
  shows "Matrix_plus_eq s m1 m2 = (Inl (InputException typeMismatch), s)
         \<and> InputException typeMismatch \<noteq> InputException sizeMismatch"
proof -
  obtain l1 where l1: "value_layout (m_value m1) = Some l1"
    using Matrix_ctor_Inr [OF assms(1)] by auto
  obtain l2 where l2: "value_layout (m_value m2) = Some l2"
    using Matrix_ctor_Inr [OF assms(2)] by auto
  show ?thesis
    using assms(3-5) l1 l2
    by (simp add: Matrix_plus_eq_def Rows_def Columns_def GetLayout_def)
qed

theorem Matrix_plus_eq_type_mismatch_witness:
  "Matrix_plus_eq [[1, 2, 3, 4], [5, 6, 7, 8]]
     \<lparr>m_value = matrixValue 0 Int32 2 2\<rparr> \<lparr>m_value = matrixValue 1 Double 2 2\<rparr>
   = (Inl (InputException typeMismatch), [[1, 2, 3, 4], [5, 6, 7, 8]])"
proof -
  have a: "Matrix_ctor (matrixValue 0 Int32 2 2) = Inr \<lparr>m_value = matrixValue 0 Int32 2 2\<rparr>"
    by (simp add: Matrix_ctor_matrixValue)
  have b: "Matrix_ctor (matrixValue 1 Double 2 2) = Inr \<lparr>m_value = matrixValue 1 Double 2 2\<rparr>"
    by (simp add: Matrix_ctor_matrixValue)
  have c: "Rows \<lparr>m_value = matrixValue 1 Double 2 2\<rparr> = Rows \<lparr>m_value = matrixValue 0 Int32 2 2\<rparr>"
    by (simp add: Rows_def GetLayout_matrixValue)
  have d: "Columns \<lparr>m_value = matrixValue 1 Double 2 2\<rparr>
           = Columns \<lparr>m_value = matrixValue 0 Int32 2 2\<rparr>"
    by (simp add: Columns_def GetLayout_matrixValue)
  have e: "Type \<lparr>m_value = matrixValue 1 Double 2 2\<rparr> \<noteq> Type \<lparr>m_value = matrixValue 0 Int32 2 2\<rparr>"
    by (simp add: Type_def matrixValue_def GetBaseType_def)
  show ?thesis
    using Matrix_plus_eq_type_mismatch [OF a b c d e] by simp
qed

lemma Matrix_plus_eq_both_dimensions_differ:
  assumes "Rows m2 = Inr r2" and "Rows m1 = Inr r1"
    and "Columns m2 = Inr c2" and "Columns m1 = Inr c1"
    and "r2 \<noteq> r1" and "c2 \<noteq> c1"
  shows "Matrix_plus_eq s m1 m2 = (Inl (InputException sizeMismatch), s)"
  using assms by (simp add: Matrix_plus_eq_def)

text \<open>
  C1. The size test of \<open>m1 += m2\<close> raises the size-mismatch exception only when the
  rows differ and the columns differ as well. Here \<open>m1\<close> has 3 rows and 2 columns and
  \<open>m2\<close> has 2 rows and 2 columns, both of type \<open>Int32\<close>: the numbers of rows differ,
  yet the call returns normally and has added \<open>m2\<close> to the first two rows of \<open>m1\<close>.
\<close>

theorem Matrix_plus_eq_one_dimension_differs:
  "Matrix_ctor (matrixValue 0 Int32 3 2) = Inr \<lparr>m_value = matrixValue 0 Int32 3 2\<rparr>
   \<and> Matrix_ctor (matrixValue 1 Int32 2 2) = Inr \<lparr>m_value = matrixValue 1 Int32 2 2\<rparr>
   \<and> Rows \<lparr>m_value = matrixValue 0 Int32 3 2\<rparr> = Inr 3
   \<and> Rows \<lparr>m_value = matrixValue 1 Int32 2 2\<rparr> = Inr 2
   \<and> Matrix_plus_eq [[1, 2, 3, 4, 5, 6], [10, 20, 30, 40]]
        \<lparr>m_value = matrixValue 0 Int32 3 2\<rparr> \<lparr>m_value = matrixValue 1 Int32 2 2\<rparr>
      = (Inr (), [[11, 22, 33, 44, 5, 6], [10, 20, 30, 40]])"
  by code_simp

theorem Matrix_plus_eq_one_dimension_differs_witness:
  "fst (Matrix_plus_eq [[1, 2, 3, 4, 5, 6], [10, 20, 30, 40]]
          \<lparr>m_value = matrixValue 0 Int32 3 2\<rparr> \<lparr>m_value = matrixValue 1 Int32 2 2\<rparr>)
     \<noteq> Inl (InputException sizeMismatch)
   \<and> snd (Matrix_plus_eq [[1, 2, 3, 4, 5, 6], [10, 20, 30, 40]]
          \<lparr>m_value = matrixValue 0 Int32 3 2\<rparr> \<lparr>m_value = matrixValue 1 Int32 2 2\<rparr>)
     \<noteq> [[1, 2, 3, 4, 5, 6], [10, 20, 30, 40]]"
  using Matrix_plus_eq_one_dimension_differs by simp

section \<open>Views share storage, copies do not\<close>

lemma store_elem_load: "store_elem s v x = Inr s' \<Longrightarrow> load s' v = Inr x"
  by (auto simp: store_elem_def load_def split: option.splits if_splits)

lemma store_elem_frame:
  "store_elem s v x = Inr s' \<Longrightarrow> value_data v = Some (b', p) \<Longrightarrow>
     length s' = length s \<and> (\<forall>b. b \<noteq> b' \<longrightarrow> s' ! b = s ! b)"
  by (auto simp: store_elem_def split: option.splits if_splits)



lemma Offset_buffer:
  "Offset v c = Inr v' \<Longrightarrow> value_data v = Some (b, p) \<Longrightarrow> \<exists>p'. value_data v' = Some (b, p')"
  by (auto simp: Offset_def split: sum.splits if_splits)





lemma forEach_frame:
  assumes step: "\<And>i s s'. body i s = Inr s' \<Longrightarrow>
                   length s' = length s \<and> (\<forall>b. b \<noteq> b' \<longrightarrow> s' ! b = s ! b)"
  shows "forEach body xs s = (r, s') \<Longrightarrow>
           length s' = length s \<and> (\<forall>b. b \<noteq> b' \<longrightarrow> s' ! b = s ! b)"
proof (induction xs arbitrary: s)
  case Nil
  then show ?case by simp
next
  case (Cons i xs)
  show ?case
  proof (cases "body i s")
    case (Inl e)
    with Cons.prems show ?thesis by simp
  next
    case (Inr s1)
    with Cons.prems have "forEach body xs s1 = (r, s')" by simp
    then have "length s' = length s1 \<and> (\<forall>b. b \<noteq> b' \<longrightarrow> s' ! b = s1 ! b)"
      by (rule Cons.IH)
    moreover have "length s1 = length s \<and> (\<forall>b. b \<noteq> b' \<longrightarrow> s1 ! b = s ! b)"
      using Inr by (rule step)
    ultimately show ?thesis by simp
  qed
qed

lemma copyEntry_frame:
  assumes "value_data destination = Some (b', p)"
    and "copyEntry source destination c s0 = Inr s1"
  shows "length s1 = length s0 \<and> (\<forall>b. b \<noteq> b' \<longrightarrow> s1 ! b = s0 ! b)"
proof -
  from assms(2) obtain dst x
    where d: "Offset destination c = Inr dst" and st: "store_elem s0 dst x = Inr s1"
    by (auto simp: copyEntry_def split: sum.splits)
  from d assms(1) obtain p' where "value_data dst = Some (b', p')"
    using Offset_buffer by blast
  with st show ?thesis by (rule store_elem_frame)
qed

lemma CopyData_frame:
  assumes "value_data destination = Some (b', p)"
    and "CopyData s source destination l = (r, s')"
  shows "length s' = length s \<and> (\<forall>b. b \<noteq> b' \<longrightarrow> s' ! b = s ! b)"
  using assms(2) copyEntry_frame [OF assms(1)] unfolding CopyData_def
  by (rule forEach_frame [rotated])

lemma Copy_new_storage:
  assumes ctor: "Matrix_ctor v = Inr m"
    and cp: "Copy s m = (Inr cp, s1)"
  shows "value_data (m_value cp) = Some (length s, 0) \<and> length s1 = Suc (length s)
         \<and> (\<forall>b. b < length s \<longrightarrow> s1 ! b = s ! b)"
proof -
  from ctor have mv: "m_value m = v" and dfd: "IsDefined v"
    and "\<exists>l. value_layout v = Some l \<and> NumDimensions l = 2"
    using Matrix_ctor_Inr by blast+
  then obtain l where vl: "value_layout v = Some l" by blast
  let ?nv = "\<lparr>value_type = value_type v, value_data = Some (length s, 0), value_layout = Some l\<rparr>"
  let ?s0 = "s @ [replicate (nat (prod_list (layout_extent l))) 0]"
  obtain r s' where cd: "CopyData ?s0 v ?nv l = (r, s')" by (cases "CopyData ?s0 v ?nv l")
  have fr: "length s' = length ?s0 \<and> (\<forall>b. b \<noteq> length s \<longrightarrow> s' ! b = ?s0 ! b)"
    using CopyData_frame [OF _ cd] by simp
  from cp mv vl dfd cd have "s1 = s'" and "m_value cp = ?nv"
    by (auto simp: Copy_def GetLayout_def Allocate_def Value_assign_def GetBaseType_def
          IsDefined_def Matrix_ctor_def IsConstrained_def
          split: sum.splits if_splits prod.splits)
  with fr show ?thesis by (auto simp: nth_append)
qed




lemma Matrix_set_seen:
  assumes "Matrix_at sub i j = Matrix_at m i' j'" and "Matrix_set s sub i j x = Inr s'"
  shows "Matrix_get s' m i' j' = Inr x"
  using assms
  by (auto simp: Matrix_set_def Matrix_get_def split: sum.splits dest: store_elem_load)
























section \<open>Properties of the loop emitters\<close>

lemma run_more_fuel:
  "run fuel blocks b st entered = Some r \<Longrightarrow> run (fuel + extra) blocks b st entered = Some r"
proof (induction fuel arbitrary: b st entered)
  case 0
  then show ?case by simp
next
  case (Suc fuel)
  then show ?case
    by (auto split: if_splits option.splits prod.splits)
qed










text \<open>
  C7. The for loop emitted with \<open>Begin(0, 10, 2)\<close> around a body that observes the
  iteration variable consists of the six blocks shown (the entry block and the five
  blocks of the loop). Run from the entry block with any bound of at least 19 blocks,
  it enters the body block 3 five times, observing 0, 2, 4, 6, 8 in this order, and
  enters the After block 5 exactly once, at the end.
\<close>

theorem ForLoop_0_10_2_iterations:
  "emitForLoop (ForLoop_Begin 0 10 2) (\<lambda>i. [ObserveInst i]) newFunction =
     Some (\<lparr>for_pInitializationBlock = Some 1, for_pConditionBlock = Some 2,
             for_pBodyBlock = Some 3, for_pIncrementBlock = Some 4,
             for_pAfterBlock = Some 5, for_pIterationVariable = Some 0\<rparr>,
           \<lparr>fn_blocks =
               [[BranchInst 1],
                [StoreInst 0 (Literal 0), BranchInst 2],
                [CondBranchInst lessThan (LoadOf 0) (Literal 10) 3 5],
                [ObserveInst 0, BranchInst 4],
                [AddUpdateInst 0 (Literal 2), BranchInst 2],
                []],
             fn_currentBlock = 5, fn_numVariables = 1\<rparr>)
   \<and> (\<forall>extra.
        run (19 + extra)
          [[BranchInst 1],
           [StoreInst 0 (Literal 0), BranchInst 2],
           [CondBranchInst lessThan (LoadOf 0) (Literal 10) 3 5],
           [ObserveInst 0, BranchInst 4],
           [AddUpdateInst 0 (Literal 2), BranchInst 2],
           []]
          0 (Map.empty, []) []
        = Some ([0, 1, 2, 3, 4, 2, 3, 4, 2, 3, 4, 2, 3, 4, 2, 3, 4, 2, 5], [0, 2, 4, 6, 8]))
   \<and> count_list [0, 1, 2, 3, 4, 2, 3, 4, 2, 3, 4, 2, 3, 4, 2, 3, 4, 2, 5 :: nat] 3 = 5
   \<and> count_list [0, 1, 2, 3, 4, 2, 3, 4, 2, 3, 4, 2, 3, 4, 2, 3, 4, 2, 5 :: nat] 5 = 1"
proof (intro conjI allI)
  show "emitForLoop (ForLoop_Begin 0 10 2) (\<lambda>i. [ObserveInst i]) newFunction =
     Some (\<lparr>for_pInitializationBlock = Some 1, for_pConditionBlock = Some 2,
             for_pBodyBlock = Some 3, for_pIncrementBlock = Some 4,
             for_pAfterBlock = Some 5, for_pIterationVariable = Some 0\<rparr>,
           \<lparr>fn_blocks =
               [[BranchInst 1],
                [StoreInst 0 (Literal 0), BranchInst 2],
                [CondBranchInst lessThan (LoadOf 0) (Literal 10) 3 5],
                [ObserveInst 0, BranchInst 4],
                [AddUpdateInst 0 (Literal 2), BranchInst 2],
                []],
             fn_currentBlock = 5, fn_numVariables = 1\<rparr>)"
    by code_simp
  fix extra
  have "run 19
          [[BranchInst 1],
           [StoreInst 0 (Literal 0), BranchInst 2],
           [CondBranchInst lessThan (LoadOf 0) (Literal 10) 3 5],
           [ObserveInst 0, BranchInst 4],
           [AddUpdateInst 0 (Literal 2), BranchInst 2],
           []]
          0 (Map.empty, []) []
        = Some ([0, 1, 2, 3, 4, 2, 3, 4, 2, 3, 4, 2, 3, 4, 2, 3, 4, 2, 5], [0, 2, 4, 6, 8])"
    by code_simp
  then show "run (19 + extra)
          [[BranchInst 1],
           [StoreInst 0 (Literal 0), BranchInst 2],
           [CondBranchInst lessThan (LoadOf 0) (Literal 10) 3 5],
           [ObserveInst 0, BranchInst 4],
           [AddUpdateInst 0 (Literal 2), BranchInst 2],
           []]
          0 (Map.empty, []) []
        = Some ([0, 1, 2, 3, 4, 2, 3, 4, 2, 3, 4, 2, 3, 4, 2, 3, 4, 2, 5], [0, 2, 4, 6, 8])"
    by (rule run_more_fuel)
  show "count_list [0, 1, 2, 3, 4, 2, 3, 4, 2, 3, 4, 2, 3, 4, 2, 3, 4, 2, 5 :: nat] 3 = 5"
    by simp
  show "count_list [0, 1, 2, 3, 4, 2, 3, 4, 2, 3, 4, 2, 3, 4, 2, 3, 4, 2, 5 :: nat] 5 = 1"
    by simp
qed

theorem ForLoop_0_10_2_iterations_witness:
  "run 20
     [[BranchInst 1],
      [StoreInst 0 (Literal 0), BranchInst 2],
      [CondBranchInst lessThan (LoadOf 0) (Literal 10) 3 5],
      [ObserveInst 0, BranchInst 4],
      [AddUpdateInst 0 (Literal 2), BranchInst 2],
      []]
     0 (Map.empty, []) []
   = Some ([0, 1, 2, 3, 4, 2, 3, 4, 2, 3, 4, 2, 3, 4, 2, 3, 4, 2, 5], [0, 2, 4, 6, 8])"
proof -
  have "(19::nat) + 1 = 20" by simp
  then show ?thesis
    using ForLoop_0_10_2_iterations [THEN conjunct2, THEN conjunct1, THEN spec, of 1]
    by simp
qed


end
